theory Spec2Isabelle
  imports Main "HOL-Library.Word"
begin

section \<open>JavaScript strings\<close>

text \<open>
  A JavaScript string is a sequence of UTF-16 code units: \<open>.length\<close> counts code units
  and a regular expression without the \<open>u\<close> flag matches code unit by code unit. The
  string literals of the source are ASCII; \<open>lit\<close> embeds them.
\<close>

type_synonym jsstring = "16 word list"

definition lit :: "string \<Rightarrow> jsstring" where
  "lit s = map (\<lambda>c. of_nat (of_char c)) s"

text \<open>\<open>Array.prototype.join\<close> on an array of strings.\<close>

fun join :: "jsstring \<Rightarrow> jsstring list \<Rightarrow> jsstring" where
  "join sep [] = []"
| "join sep [x] = x"
| "join sep (x # y # ys) = x @ sep @ join sep (y # ys)"

text \<open>
  \<open>/[...]/.test(s)\<close> for a single character class: some code unit of \<open>s\<close> is in the class.
\<close>

definition regex_test :: "(16 word \<Rightarrow> bool) \<Rightarrow> jsstring \<Rightarrow> bool" where
  "regex_test cls s = list_ex cls s"

definition class_lower :: "16 word \<Rightarrow> bool" where  \<comment> \<open>\<open>[a-z]\<close>\<close>
  "class_lower c = (0x61 \<le> c \<and> c \<le> 0x7A)"

definition class_upper :: "16 word \<Rightarrow> bool" where  \<comment> \<open>\<open>[A-Z]\<close>\<close>
  "class_upper c = (0x41 \<le> c \<and> c \<le> 0x5A)"

definition class_digit :: "16 word \<Rightarrow> bool" where  \<comment> \<open>\<open>[0-9]\<close>\<close>
  "class_digit c = (0x30 \<le> c \<and> c \<le> 0x39)"

definition class_special :: "16 word \<Rightarrow> bool" where  \<comment> \<open>\<open>[^A-Za-z0-9]\<close>\<close>
  "class_special c = (\<not> (class_upper c \<or> class_lower c \<or> class_digit c))"

section \<open>Password strength (\<open>checkPasswordStrength\<close>)\<close>

record strength_result =
  score :: nat
  maxScore :: nat
  feedback :: jsstring

text \<open>
  The source keeps a counter \<open>strength\<close> and an array \<open>feedback\<close> and runs five
  \<open>if\<close>/\<open>else\<close> statements over them, in this order.
\<close>

definition checkPasswordStrength :: "jsstring \<Rightarrow> strength_result" where
  "checkPasswordStrength password =
    (let strength = (0::nat);
         feedback = ([]::jsstring list);
         (strength, feedback) =
           (if length password \<ge> 8 then (strength + 1, feedback)
            else (strength, feedback @ [lit ''At least 8 characters'']));
         (strength, feedback) =
           (if regex_test class_lower password then (strength + 1, feedback)
            else (strength, feedback @ [lit ''Lowercase letters'']));
         (strength, feedback) =
           (if regex_test class_upper password then (strength + 1, feedback)
            else (strength, feedback @ [lit ''Uppercase letters'']));
         (strength, feedback) =
           (if regex_test class_digit password then (strength + 1, feedback)
            else (strength, feedback @ [lit ''Numbers'']));
         (strength, feedback) =
           (if regex_test class_special password then (strength + 1, feedback)
            else (strength, feedback @ [lit ''Special characters'']))
     in \<lparr>score = strength,
         maxScore = 5,
         feedback = (if length feedback > 0 then lit ''Add: '' @ join (lit '', '') feedback
                     else lit ''Strong password!'')\<rparr>)"

subsection \<open>The five conditions, as the specification words them\<close>

datatype category = MinLength | Lowercase | Uppercase | Digit | Special

definition categories :: "category list" where
  "categories = [MinLength, Lowercase, Uppercase, Digit, Special]"

text \<open>
  A condition is satisfied: the letters and digits are the ASCII ones, and the length is
  the number of code units, as in the source.
\<close>

fun satisfied :: "jsstring \<Rightarrow> category \<Rightarrow> bool" where
  "satisfied p MinLength = (length p \<ge> 8)"
| "satisfied p Lowercase = list_ex class_lower p"
| "satisfied p Uppercase = list_ex class_upper p"
| "satisfied p Digit = list_ex class_digit p"
| "satisfied p Special = list_ex class_special p"

fun category_name :: "category \<Rightarrow> jsstring" where
  "category_name MinLength = lit ''At least 8 characters''"
| "category_name Lowercase = lit ''Lowercase letters''"
| "category_name Uppercase = lit ''Uppercase letters''"
| "category_name Digit = lit ''Numbers''"
| "category_name Special = lit ''Special characters''"

definition spec_score :: "jsstring \<Rightarrow> nat" where
  "spec_score p = length (filter (satisfied p) categories)"

definition spec_missing :: "jsstring \<Rightarrow> category list" where
  "spec_missing p = filter (\<lambda>c. \<not> satisfied p c) categories"

definition spec_feedback :: "jsstring \<Rightarrow> jsstring" where
  "spec_feedback p =
    (if spec_missing p = [] then lit ''Strong password!''
     else lit ''Add: '' @ join (lit '', '') (map category_name (spec_missing p)))"

section \<open>Values received from the server\<close>

text \<open>
  \<open>response.json()\<close> yields a JSON value. \<open>undefined\<close> (a missing property) is
  \<open>None\<close> of \<open>json option\<close>. Numbers are restricted to integers; the source only
  tests them for truthiness.
\<close>

datatype json =
    JNull
  | JBool bool
  | JNum int
  | JStr jsstring
  | JArr "json list"
  | JObj "(jsstring \<times> json) list"

type_synonym jsval = "json option"

datatype js_error = TypeError | SyntaxError | NetworkError

text \<open>JavaScript truthiness, as tested by \<open>if (v)\<close> and \<open>v || d\<close>.\<close>

fun truthy :: "jsval \<Rightarrow> bool" where
  "truthy None = False"
| "truthy (Some JNull) = False"
| "truthy (Some (JBool b)) = b"
| "truthy (Some (JNum n)) = (n \<noteq> 0)"
| "truthy (Some (JStr s)) = (s \<noteq> [])"
| "truthy (Some (JArr _)) = True"
| "truthy (Some (JObj _)) = True"

text \<open>
  \<open>v.name\<close> for one of the property names the source reads (\<open>token\<close>, \<open>user\<close>,
  \<open>redirect\<close>, \<open>message\<close>, \<open>username\<close>; none of them is a built-in property of a
  primitive or an array): reading a property of \<open>null\<close> throws a TypeError, an object gives its own
  property, every other value gives \<open>undefined\<close>.
\<close>

fun get_prop :: "json \<Rightarrow> jsstring \<Rightarrow> js_error + jsval" where
  "get_prop JNull name = Inl TypeError"
| "get_prop (JObj props) name = Inr (map_of props name)"
| "get_prop _ name = Inr None"

text \<open>
  The conversions of the JavaScript runtime are parameters of the model: \<open>ToString\<close> is
  the conversion applied by \<open>localStorage.setItem\<close>, by an assignment to
  \<open>location.href\<close>, to \<open>value\<close> or to \<open>textContent\<close>, and by a template literal;
  \<open>JSON_parse\<close> gives \<open>None\<close> where \<open>JSON.parse\<close> throws a SyntaxError;
  \<open>toUpperCase\<close> is \<open>String.prototype.toUpperCase\<close>. \<open>builtin_prop v name\<close> is what
  the runtime finds under \<open>name\<close> in a value other than \<open>null\<close> that has no own
  property of that name from its JSON text (an element or the length of an array or of a
  string, an inherited method): \<open>None\<close> when there is nothing or something falsy,
  otherwise the string it converts to.
\<close>

record builtins =
  ToString :: "json \<Rightarrow> jsstring"
  JSON_stringify :: "json \<Rightarrow> jsstring"
  JSON_parse :: "jsstring \<Rightarrow> json option"
  builtin_prop :: "json \<Rightarrow> jsstring \<Rightarrow> jsstring option"
  toUpperCase :: "jsstring \<Rightarrow> jsstring"

section \<open>The page\<close>

text \<open>
  What the handlers read and write: the persistent store, the navigation target assigned
  to \<open>window.location.href\<close> (\<open>None\<close> while none has been assigned), the
  notifications in the document, the requests issued with \<open>fetch\<close>, the prompts shown
  with \<open>confirm\<close>, the console, the timers set, the links with class
  \<open>auth-link\<close>, the elements with a \<open>data-user-field\<close> attribute and the text of the
  elements of class \<open>user-avatar-initials\<close>. Whether the document has an element of class \<open>auth-form\<close> is part of
  the page, since \<open>showAuthError\<close> tests it. An assignment to the \<open>value\<close> or the
  \<open>textContent\<close> of an element stores the string. A handler runs from its event to its end
  with no other handler in between, and a write to the store succeeds.
\<close>

record request =
  url :: jsstring
  body :: "jsstring \<rightharpoonup> jsstring"

datatype timer_action = FadeError jsstring | Navigate jsstring

record auth_link =
  classList :: "jsstring list"
  display :: "jsstring option"

record user_element =
  data_user_field :: jsstring
  tagName :: jsstring
  elem_value :: jsstring   \<comment> \<open>the \<open>value\<close> of the element\<close>
  textContent :: jsstring

record page =
  localStorage :: "jsstring \<rightharpoonup> jsstring"
  location_href :: "jsstring option"
  has_auth_form :: bool
  auth_errors :: "jsstring list"
  auth_successes :: "jsstring list"
  requests :: "request list"
  confirms_shown :: "jsstring list"
  console_errors :: "jsstring list"
  timeouts :: "(nat \<times> timer_action) list"
  form_was_reset :: bool
  auth_links :: "auth_link list"
  activity_listeners :: bool
  inactivity_timer :: bool
  user_elements :: "user_element list"
  avatar_elements :: "jsstring list"

definition auth_token :: jsstring where "auth_token = lit ''auth_token''"
definition user_data :: jsstring where "user_data = lit ''user_data''"
definition remember_me :: jsstring where "remember_me = lit ''remember_me''"
definition remembered_username :: jsstring where "remembered_username = lit ''remembered_username''"

definition getItem :: "jsstring \<Rightarrow> page \<Rightarrow> jsstring option" where
  "getItem k pg = localStorage pg k"

definition setItem :: "jsstring \<Rightarrow> jsstring \<Rightarrow> page \<Rightarrow> page" where
  "setItem k v pg = pg\<lparr>localStorage := (localStorage pg)(k \<mapsto> v)\<rparr>"

definition removeItem :: "jsstring \<Rightarrow> page \<Rightarrow> page" where
  "removeItem k pg = pg\<lparr>localStorage := (localStorage pg)(k := None)\<rparr>"

text \<open>Truthiness of what \<open>getItem\<close> returns: \<open>null\<close> and the empty string are falsy.\<close>

fun truthy_item :: "jsstring option \<Rightarrow> bool" where
  "truthy_item None = False"
| "truthy_item (Some s) = (s \<noteq> [])"

definition navigate :: "jsstring \<Rightarrow> page \<Rightarrow> page" where
  "navigate target pg = pg\<lparr>location_href := Some target\<rparr>"

definition fetch :: "jsstring \<Rightarrow> (jsstring \<rightharpoonup> jsstring) \<Rightarrow> page \<Rightarrow> page" where
  "fetch u b pg = pg\<lparr>requests := requests pg @ [\<lparr>url = u, body = b\<rparr>]\<rparr>"

definition confirm :: "jsstring \<Rightarrow> page \<Rightarrow> page" where
  "confirm message pg = pg\<lparr>confirms_shown := confirms_shown pg @ [message]\<rparr>"

definition console_error :: "jsstring \<Rightarrow> page \<Rightarrow> page" where
  "console_error message pg = pg\<lparr>console_errors := console_errors pg @ [message]\<rparr>"

text \<open>
  What a \<open>fetch\<close> comes back with: the promise is rejected (the request could not
  complete), or a response arrives with its \<open>ok\<close> flag and its body, \<open>None\<close> when the
  body is not JSON and \<open>response.json()\<close> is rejected.
\<close>

datatype fetch_outcome = Rejected | Responded bool "json option"

text \<open>\<open>Object.fromEntries(new FormData(form))\<close>: a later entry of the same name wins.\<close>

definition fromEntries :: "(jsstring \<times> jsstring) list \<Rightarrow> (jsstring \<rightharpoonup> jsstring)" where
  "fromEntries entries = map_of (rev entries)"

section \<open>Notifications (\<open>showAuthError\<close>, \<open>showAuthSuccess\<close>)\<close>

definition showAuthError :: "jsstring \<Rightarrow> page \<Rightarrow> page" where
  "showAuthError message pg =
    (let pg = pg\<lparr>auth_errors := []\<rparr>
     in if has_auth_form pg
        then pg\<lparr>auth_errors := [message],
                timeouts := timeouts pg @ [(5000, FadeError message)]\<rparr>
        else pg)"

definition showAuthSuccess :: "jsstring \<Rightarrow> page \<Rightarrow> page" where
  "showAuthSuccess message pg =
    (let pg = pg\<lparr>auth_successes := []\<rparr>
     in if has_auth_form pg then pg\<lparr>auth_successes := [message]\<rparr> else pg)"

text \<open>\<open>v || 'fallback'\<close>, converted to a string where it is used as one.\<close>

definition or_else :: "builtins \<Rightarrow> jsval \<Rightarrow> jsstring \<Rightarrow> jsstring" where
  "or_else B v fallback =
    (case v of Some j \<Rightarrow> (if truthy v then ToString B j else fallback) | None \<Rightarrow> fallback)"

section \<open>The login form\<close>

record login_form =
  login_entries :: "(jsstring \<times> jsstring) list"
  remember :: "bool option"  \<comment> \<open>the \<open>input[name="remember"]\<close> of the form, if any, and its \<open>checked\<close>\<close>

text \<open>
  The body of the \<open>try\<close> block. A throw is \<open>Inl\<close>, with the page as it is at that
  moment.
\<close>

definition login_try :: "builtins \<Rightarrow> login_form \<Rightarrow> fetch_outcome \<Rightarrow> page \<Rightarrow> js_error \<times> page + page" where
  "login_try B form outcome pg =
    (let pg = fetch (lit ''/login'') (fromEntries (login_entries form)) pg
     in case outcome of
          Rejected \<Rightarrow> Inl (NetworkError, pg)
        | Responded ok None \<Rightarrow> Inl (SyntaxError, pg)
        | Responded ok (Some result) \<Rightarrow>
            if ok then
              (case get_prop result (lit ''token'') of
                 Inl e \<Rightarrow> Inl (e, pg)
               | Inr token \<Rightarrow>
                  (let pg = (case token of
                               Some t \<Rightarrow>
                                 (if truthy token then setItem auth_token (ToString B t) pg else pg)
                             | None \<Rightarrow> pg)
                   in (case get_prop result (lit ''user'') of
                         Inl e \<Rightarrow> Inl (e, pg)
                       | Inr user \<Rightarrow>
                          (let pg = (case user of
                                       Some u \<Rightarrow>
                                         (if truthy user
                                          then setItem user_data (JSON_stringify B u) pg else pg)
                                     | None \<Rightarrow> pg);
                               pg = (if remember form = Some True
                                     then setItem remember_me (lit ''true'') pg else pg)
                           in (case get_prop result (lit ''redirect'') of
                                 Inl e \<Rightarrow> Inl (e, pg)
                               | Inr redirect \<Rightarrow>
                                   Inr (navigate (or_else B redirect (lit ''/home'')) pg))))))
            else
              (case get_prop result (lit ''message'') of
                 Inl e \<Rightarrow> Inl (e, pg)
               | Inr message \<Rightarrow> Inr (showAuthError (or_else B message (lit ''Login failed'')) pg)))"

definition login_submit :: "builtins \<Rightarrow> login_form \<Rightarrow> fetch_outcome \<Rightarrow> page \<Rightarrow> page" where
  "login_submit B form outcome pg =
    (case login_try B form outcome pg of
       Inr pg' \<Rightarrow> pg'
     | Inl (error, pg') \<Rightarrow>
         showAuthError (lit ''Network error. Please try again.'')
           (console_error (lit ''Login error:'') pg'))"

section \<open>The registration form\<close>

record register_form =
  password :: jsstring          \<comment> \<open>the value of \<open>#password\<close>\<close>
  confirm_password :: jsstring  \<comment> \<open>the value of \<open>#confirm_password\<close>\<close>
  register_entries :: "(jsstring \<times> jsstring) list"

definition register_try :: "builtins \<Rightarrow> register_form \<Rightarrow> fetch_outcome \<Rightarrow> page \<Rightarrow> js_error \<times> page + page" where
  "register_try B form outcome pg =
    (let data = (fromEntries (register_entries form))(lit ''confirm_password'' := None);
         pg = fetch (lit ''/register'') data pg
     in case outcome of
          Rejected \<Rightarrow> Inl (NetworkError, pg)
        | Responded ok None \<Rightarrow> Inl (SyntaxError, pg)
        | Responded ok (Some result) \<Rightarrow>
            if ok then
              (let pg = showAuthSuccess (lit ''Registration successful! Redirecting to login...'') pg;
                   pg = pg\<lparr>form_was_reset := True\<rparr>
               in Inr (pg\<lparr>timeouts := timeouts pg @ [(2000, Navigate (lit ''/login''))]\<rparr>))
            else
              (case get_prop result (lit ''message'') of
                 Inl e \<Rightarrow> Inl (e, pg)
               | Inr message \<Rightarrow>
                   Inr (showAuthError (or_else B message (lit ''Registration failed'')) pg)))"

definition register_submit :: "builtins \<Rightarrow> register_form \<Rightarrow> fetch_outcome \<Rightarrow> page \<Rightarrow> page" where
  "register_submit B form outcome pg =
    (if password form \<noteq> confirm_password form
     then showAuthError (lit ''Passwords do not match'') pg
     else if length (password form) < 6
     then showAuthError (lit ''Password must be at least 6 characters long'') pg
     else (case register_try B form outcome pg of
             Inr pg' \<Rightarrow> pg'
           | Inl (error, pg') \<Rightarrow>
               showAuthError (lit ''Network error. Please try again.'')
                 (console_error (lit ''Registration error:'') pg')))"

section \<open>The logout link\<close>

text \<open>
  \<open>confirmed\<close> is the user's answer to the prompt. The response to the request is not
  read: any response, whatever its status, lets the handler go on; a rejected request
  throws past the cleanup into the \<open>catch\<close>, which logs.
\<close>

definition logout_click :: "bool \<Rightarrow> fetch_outcome \<Rightarrow> page \<Rightarrow> page" where
  "logout_click confirmed outcome pg =
    (let pg = confirm (lit ''Are you sure you want to logout?'') pg
     in if confirmed then
          (let pg = fetch (lit ''/logout'') Map.empty pg
           in case outcome of
                Rejected \<Rightarrow> console_error (lit ''Logout error:'') pg
              | Responded ok b \<Rightarrow>
                  navigate (lit ''/'')
                    (removeItem remember_me (removeItem user_data (removeItem auth_token pg))))
        else pg)"

section \<open>Session bootstrap (\<open>checkAuthStatus\<close>)\<close>

definition set_display :: "jsstring \<Rightarrow> auth_link \<Rightarrow> auth_link" where
  "set_display d link = link\<lparr>display := Some d\<rparr>"

definition contains :: "auth_link \<Rightarrow> jsstring \<Rightarrow> bool" where
  "contains link c = (c \<in> set (classList link))"





text \<open>The bodies of the loops over the links, for a logged-in user and for a guest.\<close>

definition logged_in_link :: "auth_link \<Rightarrow> auth_link" where
  "logged_in_link link =
    (let link = (if contains link (lit ''login-link'') then set_display (lit ''none'') link else link);
         link = (if contains link (lit ''register-link'') then set_display (lit ''none'') link else link);
         link = (if contains link (lit ''profile-link'') then set_display (lit ''block'') link else link);
         link = (if contains link (lit ''logout-link'') then set_display (lit ''block'') link else link)
     in link)"

definition guest_link :: "auth_link \<Rightarrow> auth_link" where
  "guest_link link =
    (let link = (if contains link (lit ''login-link'') then set_display (lit ''block'') link else link);
         link = (if contains link (lit ''register-link'') then set_display (lit ''block'') link else link);
         link = (if contains link (lit ''profile-link'') then set_display (lit ''none'') link else link);
         link = (if contains link (lit ''logout-link'') then set_display (lit ''none'') link else link)
     in link)"




section \<open>Inactivity expiry (\<open>setupAutoLogout\<close>)\<close>

text \<open>
  \<open>inactivity_timer\<close> says that the countdown is pending, \<open>activity_listeners\<close> that
  \<open>setupAutoLogout\<close> has registered \<open>resetTimer\<close> on the activity events.
  \<open>resetTimer\<close> clears the pending countdown and starts a new one. The length of the
  countdown is not modelled: the countdown elapsing is an event.
\<close>

definition resetTimer :: "page \<Rightarrow> page" where
  "resetTimer pg = pg\<lparr>inactivity_timer := True\<rparr>"

definition inactivity_prompt :: jsstring where
  "inactivity_prompt = lit ''You have been inactive for a while. Do you want to stay logged in?''"

text \<open>\<open>stay\<close> is the user's answer to the prompt, should it be shown.\<close>

definition logoutDueToInactivity :: "bool \<Rightarrow> page \<Rightarrow> page" where
  "logoutDueToInactivity stay pg =
    (if truthy_item (getItem auth_token pg) then
       (let pg = confirm inactivity_prompt pg
        in if stay then resetTimer pg
           else navigate (lit ''/login?timeout=true'')
                  (removeItem user_data (removeItem auth_token pg)))
     else pg)"

definition setupAutoLogout :: "page \<Rightarrow> page" where
  "setupAutoLogout pg = resetTimer (pg\<lparr>activity_listeners := True\<rparr>)"

text \<open>The statement at the top level of the script, run once when the script loads.\<close>

definition script_load :: "page \<Rightarrow> page" where
  "script_load pg = (if truthy_item (getItem auth_token pg) then setupAutoLogout pg else pg)"

text \<open>
  What can happen to the inactivity subsystem after the script has loaded: a user-activity
  signal, the countdown elapsing (with the answer the user would give), and a write to
  or a removal from the store by any other handler or tab.
\<close>

datatype event =
    Activity
  | TimerElapsed bool
  | StoreSet jsstring jsstring
  | StoreRemove jsstring

fun step :: "page \<Rightarrow> event \<Rightarrow> page" where
  "step pg Activity = (if activity_listeners pg then resetTimer pg else pg)"
| "step pg (TimerElapsed stay) =
     (if inactivity_timer pg then logoutDueToInactivity stay (pg\<lparr>inactivity_timer := False\<rparr>)
      else pg)"
| "step pg (StoreSet k v) = setItem k v pg"
| "step pg (StoreRemove k) = removeItem k pg"

definition run :: "page \<Rightarrow> event list \<Rightarrow> page" where
  "run pg events = foldl step pg events"

section \<open>Examples\<close>

text \<open>
  A page that has just been loaded, with an \<open>auth-form\<close> element or without, and a
  table of conversions for the examples: it is exact on the values they use (a string
  converts to itself, the empty object is written \<open>{}\<close> and read back from it,
  \<open>null\<close> is read from its text, the two profiles have no built-in property under the
  names the examples bind, and an ASCII letter has its ASCII capital).
\<close>

definition fresh_page :: "bool \<Rightarrow> (jsstring \<rightharpoonup> jsstring) \<Rightarrow> page" where
  "fresh_page form store =
    \<lparr>localStorage = store, location_href = None, has_auth_form = form, auth_errors = [],
     auth_successes = [], requests = [], confirms_shown = [], console_errors = [],
     timeouts = [], form_was_reset = False, auth_links = [], activity_listeners = False,
     inactivity_timer = False, user_elements = [], avatar_elements = []\<rparr>"

definition example_builtins :: builtins where
  "example_builtins =
    \<lparr>ToString = (\<lambda>v. case v of JStr s \<Rightarrow> s | _ \<Rightarrow> lit ''[object Object]''),
     JSON_stringify = (\<lambda>v. lit ''{}''),
     JSON_parse = (\<lambda>s. if s = lit ''{}'' then Some (JObj [])
                       else if s = lit ''null'' then Some JNull else None),
     builtin_prop = (\<lambda>v name. None),
     toUpperCase = map (\<lambda>c. if class_lower c then c - 32 else c)\<rparr>"

text \<open>
  The response of the specification's example scenario (the profile reduced to the empty
  object), a store that holds a session, and a run of events on a guest's page.
\<close>

definition alice_response :: json where
  "alice_response = JObj [(lit ''token'', JStr (lit ''abc'')), (lit ''user'', JObj []),
                          (lit ''redirect'', JStr (lit ''/dashboard''))]"

definition session_store :: "jsstring \<rightharpoonup> jsstring" where
  "session_store = [auth_token \<mapsto> lit ''abc'', user_data \<mapsto> lit ''{}'',
                    remember_me \<mapsto> lit ''true'', remembered_username \<mapsto> lit ''alice'']"

definition guest_events :: "event list" where
  "guest_events = [Activity, TimerElapsed False, StoreSet auth_token (lit ''abc''),
                   TimerElapsed False, Activity]"

definition no_login_form :: login_form where
  "no_login_form = \<lparr>login_entries = [], remember = None\<rparr>"



section \<open>Notions the properties are stated with\<close>

text \<open>The store keeps token and profile together: both keys are set or both are absent.\<close>

definition session_consistent :: "(jsstring \<rightharpoonup> jsstring) \<Rightarrow> bool" where
  "session_consistent store = (store auth_token = None \<longleftrightarrow> store user_data = None)"

text \<open>A response body carries a property: reading it gives a truthy value.\<close>

definition carries :: "json \<Rightarrow> jsstring \<Rightarrow> bool" where
  "carries result name = (case get_prop result name of Inr v \<Rightarrow> truthy v | Inl e \<Rightarrow> False)"












text \<open>
  A failed attempt: the request is rejected (a network error) or the response is not ok.
\<close>

definition request_failed :: "fetch_outcome \<Rightarrow> bool" where
  "request_failed outcome = (case outcome of Rejected \<Rightarrow> True | Responded ok b \<Rightarrow> \<not> ok)"

section \<open>Properties of the password strength\<close>

lemma checkPasswordStrength_score: "score (checkPasswordStrength p) = spec_score p"
  by (simp add: checkPasswordStrength_def spec_score_def categories_def regex_test_def Let_def)

lemma checkPasswordStrength_feedback: "feedback (checkPasswordStrength p) = spec_feedback p"
  by (simp add: checkPasswordStrength_def spec_feedback_def spec_missing_def categories_def
      regex_test_def Let_def)

lemma filter_length_mono:
  "(\<And>x. x \<in> set xs \<Longrightarrow> P x \<Longrightarrow> Q x) \<Longrightarrow> length (filter P xs) \<le> length (filter Q xs)"
  by (induction xs) auto

lemma spec_score_le: "spec_score p \<le> 5"
proof -
  have "length (filter (satisfied p) categories) \<le> length categories"
    by (rule length_filter_le)
  then show ?thesis by (simp add: spec_score_def categories_def)
qed

lemma spec_score_missing: "spec_score p + length (spec_missing p) = 5"
proof -
  have "length (filter (satisfied p) categories)
        + length (filter (\<lambda>c. \<not> satisfied p c) categories) = length categories"
    by (rule sum_length_filter_compl)
  then show ?thesis by (simp add: spec_score_def spec_missing_def categories_def)
qed

lemma add_prefix_not_strong: "lit ''Add: '' @ xs \<noteq> lit ''Strong password!''"
  by (simp add: lit_def)

lemma spec_feedback_strong: "spec_feedback p = lit ''Strong password!'' \<longleftrightarrow> spec_score p = 5"
  using spec_score_missing [of p] by (auto simp: spec_feedback_def add_prefix_not_strong)

lemmas class_defs = class_lower_def class_upper_def class_digit_def class_special_def

text \<open>
  C6. For every string, the result of \<open>checkPasswordStrength\<close> (a function of the string
  alone, defined on every string) has as score the number of the five conditions the
  string satisfies, 5 as maximum, and as feedback \<open>Strong password!\<close> when no condition
  fails and otherwise \<open>Add: \<close> followed by the names of exactly the failing
  categories, in order, separated by commas. On the empty string all five categories
  are missing, the score is 0 and the feedback lists the five.
\<close>

theorem checkPasswordStrength_meets_spec:
  "checkPasswordStrength p = \<lparr>score = spec_score p, maxScore = 5, feedback = spec_feedback p\<rparr>
   \<and> spec_missing [] = categories
   \<and> checkPasswordStrength [] =
       \<lparr>score = 0, maxScore = 5,
        feedback = lit ''Add: At least 8 characters, Lowercase letters, Uppercase letters, Numbers, Special characters''\<rparr>"
  by (simp add: checkPasswordStrength_def spec_score_def spec_feedback_def spec_missing_def
      categories_def regex_test_def Let_def lit_def)

text \<open>
  C7. For every string the score is at most 5 (and at least 0, being a natural number);
  a string that satisfies every condition another string satisfies scores at least as
  much; and the feedback is \<open>Strong password!\<close> exactly when the score is 5.
\<close>

theorem score_range_monotone_strong:
  "score (checkPasswordStrength p) \<le> 5
   \<and> ((\<forall>c. satisfied p c \<longrightarrow> satisfied q c)
        \<longrightarrow> score (checkPasswordStrength p) \<le> score (checkPasswordStrength q))
   \<and> (feedback (checkPasswordStrength p) = lit ''Strong password!''
        \<longleftrightarrow> score (checkPasswordStrength p) = 5)"
  unfolding checkPasswordStrength_score checkPasswordStrength_feedback
  using spec_score_le [of p] spec_feedback_strong [of p]
  by (auto simp: spec_score_def intro: filter_length_mono)

theorem score_range_monotone_strong_witness:
  "score (checkPasswordStrength (lit ''abc'')) = 1
   \<and> score (checkPasswordStrength (lit ''abcdEF12!'')) = 5
   \<and> score (checkPasswordStrength (lit ''abc'')) \<le> score (checkPasswordStrength (lit ''abcdEF12!''))
   \<and> feedback (checkPasswordStrength (lit ''abcdEF12!'')) = lit ''Strong password!''
   \<and> feedback (checkPasswordStrength (lit ''abc'')) \<noteq> lit ''Strong password!''"
proof -
  have sub: "\<forall>c. satisfied (lit ''abc'') c \<longrightarrow> satisfied (lit ''abcdEF12!'') c"
  proof
    fix c show "satisfied (lit ''abc'') c \<longrightarrow> satisfied (lit ''abcdEF12!'') c"
      by (cases c) (simp_all add: lit_def class_defs)
  qed
  have s1: "score (checkPasswordStrength (lit ''abc'')) = 1"
    by (simp add: checkPasswordStrength_def regex_test_def lit_def class_defs Let_def)
  have s5: "score (checkPasswordStrength (lit ''abcdEF12!'')) = 5"
    by (simp add: checkPasswordStrength_def regex_test_def lit_def class_defs Let_def)
  show ?thesis
    using sub s1 s5
      score_range_monotone_strong [of "lit ''abc''" "lit ''abcdEF12!''"]
      score_range_monotone_strong [of "lit ''abcdEF12!''" "lit ''abc''"]
    by simp
qed

section \<open>Properties of the handlers\<close>

lemma keys_distinct [simp]:
  "auth_token \<noteq> user_data" "auth_token \<noteq> remember_me" "auth_token \<noteq> remembered_username"
  "user_data \<noteq> auth_token" "user_data \<noteq> remember_me" "user_data \<noteq> remembered_username"
  "remember_me \<noteq> auth_token" "remember_me \<noteq> user_data" "remember_me \<noteq> remembered_username"
  "remembered_username \<noteq> auth_token" "remembered_username \<noteq> user_data"
  "remembered_username \<noteq> remember_me"
  by (simp_all add: auth_token_def user_data_def remember_me_def remembered_username_def lit_def)

lemmas page_ops = getItem_def setItem_def removeItem_def navigate_def fetch_def confirm_def
  console_error_def showAuthError_def showAuthSuccess_def

subsection \<open>Login\<close>

text \<open>
  C1, as stated, fails: an ok response that carries a token and no profile, received
  with an empty store, leaves \<open>auth_token\<close> set and \<open>user_data\<close> absent.
\<close>

theorem login_token_without_profile:
  "\<not> session_consistent (localStorage
        (login_submit example_builtins no_login_form
           (Responded True (Some (JObj [(lit ''token'', JStr (lit ''abc''))])))
           (fresh_page True Map.empty)))"
  by (simp add: session_consistent_def login_submit_def login_try_def page_ops fresh_page_def
      example_builtins_def no_login_form_def or_else_def Let_def lit_def)

text \<open>
  C1, amended. The source writes the token and the profile under two separate tests, so
  the two stay together only for the responses that carry both or neither. For every
  login attempt whose response, when it is ok, carries a token exactly when it carries a
  profile: a store that keeps token and profile together before the attempt keeps them
  together after it, and an ok response that carries the token leaves both keys set.
\<close>

theorem login_keeps_token_and_profile_together:
  assumes both_or_neither:
    "\<forall>result. outcome = Responded True (Some result)
        \<longrightarrow> carries result (lit ''token'') = carries result (lit ''user'')"
  shows "(session_consistent (localStorage pg)
            \<longrightarrow> session_consistent (localStorage (login_submit B form outcome pg)))
       \<and> (\<forall>result. outcome = Responded True (Some result) \<and> carries result (lit ''token'')
            \<longrightarrow> localStorage (login_submit B form outcome pg) auth_token \<noteq> None
              \<and> localStorage (login_submit B form outcome pg) user_data \<noteq> None)"
proof (cases outcome)
  case Rejected
  then show ?thesis
    by (simp add: login_submit_def login_try_def page_ops Let_def)
next
  case (Responded ok b)
  show ?thesis
  proof (cases b)
    case None
    with Responded show ?thesis
      by (simp add: login_submit_def login_try_def page_ops Let_def)
  next
    case (Some result)
    show ?thesis
    proof (cases ok)
      case False
      with Responded Some show ?thesis
        by (simp add: login_submit_def login_try_def page_ops Let_def split: sum.splits)
    next
      case True
      with Responded Some both_or_neither
      have eq: "carries result (lit ''token'') = carries result (lit ''user'')"
        by simp
      show ?thesis
      proof (cases "result = JNull")
        case True
        with Responded Some \<open>ok\<close> show ?thesis
          by (simp add: login_submit_def login_try_def page_ops Let_def carries_def)
      next
        case False
        then obtain t u r where g: "get_prop result (lit ''token'') = Inr t"
          "get_prop result (lit ''user'') = Inr u" "get_prop result (lit ''redirect'') = Inr r"
          by (cases result) auto
        with eq have tu: "truthy t = truthy u" by (simp add: carries_def)
        from Responded Some \<open>ok\<close> g tu show ?thesis
          by (cases t; cases u)
             (auto simp: login_submit_def login_try_def page_ops Let_def carries_def
                session_consistent_def)
      qed
    qed
  qed
qed

theorem login_keeps_token_and_profile_together_witness:
  "session_consistent (localStorage
      (login_submit example_builtins no_login_form
         (Responded True (Some alice_response)) (fresh_page True Map.empty)))
   \<and> localStorage
      (login_submit example_builtins no_login_form
         (Responded True (Some alice_response)) (fresh_page True Map.empty)) auth_token \<noteq> None
   \<and> localStorage
      (login_submit example_builtins no_login_form
         (Responded True (Some alice_response)) (fresh_page True Map.empty)) user_data \<noteq> None"
proof -
  have c: "carries alice_response (lit ''token'')" "carries alice_response (lit ''user'')"
    by (simp_all add: carries_def alice_response_def lit_def)
  then have h: "\<forall>result. Responded True (Some alice_response) = Responded True (Some result)
        \<longrightarrow> carries result (lit ''token'') = carries result (lit ''user'')"
    by simp
  have s: "session_consistent (localStorage (fresh_page True Map.empty))"
    by (simp add: session_consistent_def fresh_page_def)
  from login_keeps_token_and_profile_together [OF h, of "fresh_page True Map.empty"
      example_builtins no_login_form] s c
  show ?thesis by simp
qed

text \<open>
  C3, as stated, fails: \<open>showAuthError\<close> inserts the notification into the element of
  class \<open>auth-form\<close> and only if the page has one. After a failed attempt on a page
  without one, no error notification is shown.
\<close>

theorem failed_login_without_auth_form:
  "\<not> (\<exists>message. auth_errors (login_submit example_builtins no_login_form Rejected
                      (fresh_page False Map.empty)) = [message])"
  by (simp add: login_submit_def login_try_def page_ops fresh_page_def Let_def)

text \<open>
  C3, amended. For every failed login attempt (the request is rejected, or the response
  is not ok, whatever its body) the store is left unchanged, no navigation target is
  assigned, every error notification shown before is removed, and on a page with an
  element of class \<open>auth-form\<close> exactly one error notification is shown; on a page
  without one, none.
\<close>

theorem failed_login_only_notifies:
  assumes "request_failed outcome"
  shows "localStorage (login_submit B form outcome pg) = localStorage pg
       \<and> location_href (login_submit B form outcome pg) = location_href pg
       \<and> (\<exists>message. auth_errors (login_submit B form outcome pg)
                       = (if has_auth_form pg then [message] else []))"
  using assms
  by (auto simp: request_failed_def login_submit_def login_try_def page_ops Let_def
      split: fetch_outcome.splits option.splits sum.splits)

theorem failed_login_only_notifies_witness:
  "localStorage (login_submit example_builtins no_login_form
       (Responded False (Some (JObj [(lit ''message'', JStr (lit ''Bad credentials''))])))
       ((fresh_page True session_store)\<lparr>auth_errors := [lit ''old'', lit ''older'']\<rparr>))
     = session_store
   \<and> location_href (login_submit example_builtins no_login_form
       (Responded False (Some (JObj [(lit ''message'', JStr (lit ''Bad credentials''))])))
       ((fresh_page True session_store)\<lparr>auth_errors := [lit ''old'', lit ''older'']\<rparr>))
     = None
   \<and> auth_errors (login_submit example_builtins no_login_form
       (Responded False (Some (JObj [(lit ''message'', JStr (lit ''Bad credentials''))])))
       ((fresh_page True session_store)\<lparr>auth_errors := [lit ''old'', lit ''older'']\<rparr>))
     = [lit ''Bad credentials'']"
proof -
  let ?out = "Responded False (Some (JObj [(lit ''message'', JStr (lit ''Bad credentials''))]))"
  let ?pg = "(fresh_page True session_store)\<lparr>auth_errors := [lit ''old'', lit ''older'']\<rparr>"
  have f: "request_failed ?out" by (simp add: request_failed_def)
  have p: "localStorage ?pg = session_store" "location_href ?pg = None"
    by (simp_all add: fresh_page_def)
  have e: "auth_errors (login_submit example_builtins no_login_form ?out ?pg)
             = [lit ''Bad credentials'']"
    by (simp add: login_submit_def login_try_def page_ops fresh_page_def example_builtins_def
        no_login_form_def or_else_def Let_def lit_def)
  from failed_login_only_notifies [OF f, of example_builtins no_login_form ?pg] p e
  show ?thesis by simp
qed

subsection \<open>Registration\<close>

text \<open>
  C5. For every registration submission whose confirm-credential differs from the
  credential, or whose credential has fewer than 6 characters, the handler does nothing
  but report the validation error with \<open>showAuthError\<close> (\<open>Passwords do not match\<close>
  for a mismatch, the length message otherwise): no request is issued, to the
  registration endpoint or to any other, whatever the server would have answered.
\<close>

theorem register_rejects_before_request:
  assumes "password form \<noteq> confirm_password form \<or> length (password form) < 6"
  shows "register_submit B form outcome pg =
           showAuthError (if password form \<noteq> confirm_password form
                          then lit ''Passwords do not match''
                          else lit ''Password must be at least 6 characters long'') pg
       \<and> requests (register_submit B form outcome pg) = requests pg"
  using assms by (auto simp: register_submit_def showAuthError_def Let_def)

theorem register_rejects_before_request_witness:
  "register_submit example_builtins
      \<lparr>password = lit ''secret1'', confirm_password = lit ''secret2'', register_entries = []\<rparr>
      (Responded True (Some (JObj []))) (fresh_page True Map.empty)
     = showAuthError (lit ''Passwords do not match'') (fresh_page True Map.empty)
   \<and> requests (register_submit example_builtins
      \<lparr>password = lit ''secret1'', confirm_password = lit ''secret2'', register_entries = []\<rparr>
      (Responded True (Some (JObj []))) (fresh_page True Map.empty)) = []
   \<and> register_submit example_builtins
      \<lparr>password = lit ''abc'', confirm_password = lit ''abc'', register_entries = []\<rparr>
      (Responded True (Some (JObj []))) (fresh_page True Map.empty)
     = showAuthError (lit ''Password must be at least 6 characters long'')
         (fresh_page True Map.empty)"
proof -
  let ?mismatch = "\<lparr>password = lit ''secret1'', confirm_password = lit ''secret2'',
                    register_entries = []\<rparr>"
  let ?short = "\<lparr>password = lit ''abc'', confirm_password = lit ''abc'',
                 register_entries = []\<rparr>"
  have m: "password ?mismatch \<noteq> confirm_password ?mismatch \<or> length (password ?mismatch) < 6"
    by (simp add: lit_def)
  have s: "password ?short \<noteq> confirm_password ?short \<or> length (password ?short) < 6"
    by (simp add: lit_def)
  have r: "requests (fresh_page True Map.empty) = []"
    by (simp add: fresh_page_def)
  note a = register_rejects_before_request [OF m, of example_builtins
        "Responded True (Some (JObj []))" "fresh_page True Map.empty"]
  note b = register_rejects_before_request [OF s, of example_builtins
        "Responded True (Some (JObj []))" "fresh_page True Map.empty"]
  from a [THEN conjunct1]
  have 1: "register_submit example_builtins ?mismatch (Responded True (Some (JObj [])))
        (fresh_page True Map.empty)
      = showAuthError (lit ''Passwords do not match'') (fresh_page True Map.empty)"
    by (simp add: lit_def)
  from a [THEN conjunct2] r
  have 2: "requests (register_submit example_builtins ?mismatch
        (Responded True (Some (JObj []))) (fresh_page True Map.empty)) = []"
    by (rule trans)
  from b [THEN conjunct1]
  have 3: "register_submit example_builtins ?short (Responded True (Some (JObj [])))
        (fresh_page True Map.empty)
      = showAuthError (lit ''Password must be at least 6 characters long'')
          (fresh_page True Map.empty)"
    by simp
  from 1 2 3 show ?thesis by blast
qed

text \<open>
  C9. For every registration submission that fails both checks (the confirm-credential
  differs and the credential has fewer than 6 characters) the mismatch check comes
  first: the handler reports \<open>Passwords do not match\<close> and returns, and the length
  message is not among the error notifications shown afterwards.
\<close>

theorem register_mismatch_takes_precedence:
  assumes "password form \<noteq> confirm_password form" and "length (password form) < 6"
  shows "register_submit B form outcome pg = showAuthError (lit ''Passwords do not match'') pg
       \<and> set (auth_errors (register_submit B form outcome pg)) \<subseteq> {lit ''Passwords do not match''}
       \<and> lit ''Password must be at least 6 characters long''
           \<notin> set (auth_errors (register_submit B form outcome pg))"
  using assms by (auto simp: register_submit_def showAuthError_def Let_def lit_def)

theorem register_mismatch_takes_precedence_witness:
  "register_submit example_builtins
      \<lparr>password = lit ''abc'', confirm_password = lit ''abd'', register_entries = []\<rparr>
      Rejected (fresh_page True Map.empty)
     = showAuthError (lit ''Passwords do not match'') (fresh_page True Map.empty)
   \<and> auth_errors (register_submit example_builtins
      \<lparr>password = lit ''abc'', confirm_password = lit ''abd'', register_entries = []\<rparr>
      Rejected (fresh_page True Map.empty)) = [lit ''Passwords do not match'']"
proof -
  let ?form = "\<lparr>password = lit ''abc'', confirm_password = lit ''abd'', register_entries = []\<rparr>"
  have m: "password ?form \<noteq> confirm_password ?form" by (simp add: lit_def)
  have l: "length (password ?form) < 6" by (simp add: lit_def)
  have e: "auth_errors (showAuthError (lit ''Passwords do not match'') (fresh_page True Map.empty))
             = [lit ''Passwords do not match'']"
    by (simp add: showAuthError_def fresh_page_def)
  note a = register_mismatch_takes_precedence [OF m l, of example_builtins Rejected
        "fresh_page True Map.empty"]
  from a [THEN conjunct1]
  have 1: "register_submit example_builtins ?form Rejected (fresh_page True Map.empty)
      = showAuthError (lit ''Passwords do not match'') (fresh_page True Map.empty)" .
  from 1 e have 2: "auth_errors (register_submit example_builtins ?form Rejected
        (fresh_page True Map.empty)) = [lit ''Passwords do not match'']"
    by (simp only: )
  from 1 2 show ?thesis by blast
qed

subsection \<open>Logout\<close>

text \<open>
  C2, as stated, fails: the cleanup and the navigation stand inside the \<open>try\<close> block,
  after the awaited request. When the user confirms and the request is rejected, the
  handler only logs: the session keys stay in the store and the page does not navigate.
\<close>

theorem logout_rejected_request_keeps_session:
  "\<not> (localStorage (logout_click True Rejected (fresh_page True session_store)) auth_token = None
      \<and> localStorage (logout_click True Rejected (fresh_page True session_store)) user_data = None
      \<and> localStorage (logout_click True Rejected (fresh_page True session_store)) remember_me = None
      \<and> location_href (logout_click True Rejected (fresh_page True session_store))
          = Some (lit ''/''))"
  by (simp add: logout_click_def page_ops fresh_page_def session_store_def Let_def)

text \<open>
  C2, amended. For every confirmed logout whose request is answered, whatever the status
  of the response (the response is not read, so an error status does not block the
  cleanup), the keys \<open>auth_token\<close>, \<open>user_data\<close> and \<open>remember_me\<close> are removed from
  the store and the page navigates to the site root. For every confirmed logout whose
  request is rejected, the store is left as it was and no navigation target is assigned.
\<close>

theorem logout_cleans_up_when_answered:
  "localStorage (logout_click True (Responded ok b) pg) auth_token = None
   \<and> localStorage (logout_click True (Responded ok b) pg) user_data = None
   \<and> localStorage (logout_click True (Responded ok b) pg) remember_me = None
   \<and> location_href (logout_click True (Responded ok b) pg) = Some (lit ''/'')
   \<and> localStorage (logout_click True Rejected pg) = localStorage pg
   \<and> location_href (logout_click True Rejected pg) = location_href pg"
  by (simp add: logout_click_def page_ops Let_def)

theorem logout_cleans_up_when_answered_witness:
  "localStorage (logout_click True (Responded False None) (fresh_page True session_store))
     = [remembered_username \<mapsto> lit ''alice'']
   \<and> location_href (logout_click True (Responded False None) (fresh_page True session_store))
     = Some (lit ''/'')
   \<and> localStorage (logout_click True Rejected (fresh_page True session_store)) = session_store"
proof -
  let ?pg = "fresh_page True session_store"
  note a = logout_cleans_up_when_answered [of False None ?pg]
  have s: "localStorage ?pg = session_store" by (simp add: fresh_page_def)
  have 1: "localStorage (logout_click True (Responded False None) ?pg)
             = [remembered_username \<mapsto> lit ''alice'']"
    by (rule ext) (simp add: logout_click_def page_ops fresh_page_def session_store_def Let_def)
  from a have 2: "location_href (logout_click True (Responded False None) ?pg) = Some (lit ''/'')"
    by blast
  from a s have 3: "localStorage (logout_click True Rejected ?pg) = session_store"
    by (simp only: )
  from 1 2 3 show ?thesis by blast
qed

text \<open>
  C10, as stated, fails for the same reason as C2: a confirmed logout whose request is
  rejected removes no key at all.
\<close>

theorem logout_rejected_request_removes_nothing:
  "\<not> (dom (localStorage (logout_click True Rejected (fresh_page False session_store)))
        = dom session_store - {auth_token, user_data, remember_me})"
  by (auto simp add: logout_click_def page_ops fresh_page_def session_store_def Let_def)

text \<open>
  C10, amended. A confirmed logout whose request is answered removes exactly the keys
  \<open>auth_token\<close>, \<open>user_data\<close> and \<open>remember_me\<close>: every other key keeps its value.
  No logout, confirmed or not, answered or not, changes \<open>remembered_username\<close>.
\<close>

theorem logout_removes_exactly_three_keys:
  "localStorage (logout_click True (Responded ok b) pg)
     = (\<lambda>k. if k \<in> {auth_token, user_data, remember_me} then None else localStorage pg k)
   \<and> localStorage (logout_click confirmed outcome pg) remembered_username
     = localStorage pg remembered_username"
  by (cases outcome) (auto simp add: logout_click_def page_ops Let_def)

theorem logout_removes_exactly_three_keys_witness:
  "dom (localStorage (logout_click True (Responded True None) (fresh_page True session_store)))
     = {remembered_username}
   \<and> localStorage (logout_click True (Responded True None) (fresh_page True session_store))
       remembered_username = Some (lit ''alice'')"
proof -
  let ?pg = "fresh_page True session_store"
  note a = logout_removes_exactly_three_keys [of True None ?pg True "Responded True None"]
  have s: "localStorage ?pg = session_store" by (simp add: fresh_page_def)
  from a [THEN conjunct1] s
  have 1: "dom (localStorage (logout_click True (Responded True None) ?pg)) = {remembered_username}"
    by (auto simp: session_store_def split: if_splits)
  from a [THEN conjunct2] s
  have 2: "localStorage (logout_click True (Responded True None) ?pg) remembered_username
             = Some (lit ''alice'')"
    by (simp add: session_store_def)
  from 1 2 show ?thesis by blast
qed

subsection \<open>Session bootstrap\<close>








lemma contains_set_display [simp]: "contains (set_display d link) c = contains link c"
  by (simp add: contains_def set_display_def)

lemma display_set_display [simp]: "display (set_display d link) = Some d"
  by (simp add: set_display_def)

lemma classList_logged_in_link [simp]: "classList (logged_in_link link) = classList link"
  by (simp add: logged_in_link_def set_display_def Let_def)

lemma classList_guest_link [simp]: "classList (guest_link link) = classList link"
  by (simp add: guest_link_def set_display_def Let_def)




















subsection \<open>Inactivity expiry\<close>

lemma step_unarmed:
  assumes "\<not> activity_listeners pg" and "\<not> inactivity_timer pg"
  shows "\<not> activity_listeners (step pg e) \<and> \<not> inactivity_timer (step pg e)
       \<and> confirms_shown (step pg e) = confirms_shown pg"
  using assms by (cases e) (simp_all add: setItem_def removeItem_def)

lemma run_unarmed:
  assumes "\<not> activity_listeners pg" and "\<not> inactivity_timer pg"
  shows "\<not> activity_listeners (run pg events) \<and> \<not> inactivity_timer (run pg events)
       \<and> confirms_shown (run pg events) = confirms_shown pg"
  using assms
proof (induction events arbitrary: pg)
  case Nil
  then show ?case by (simp add: run_def)
next
  case (Cons e events)
  from step_unarmed [OF Cons.prems, of e] Cons.IH [of "step pg e"]
  show ?case by (simp add: run_def)
qed

lemma step_prompt:
  assumes "confirms_shown (step pg e) \<noteq> confirms_shown pg"
  shows "truthy_item (getItem auth_token pg) \<and> inactivity_timer pg
       \<and> confirms_shown (step pg e) = confirms_shown pg @ [inactivity_prompt]"
  using assms
  by (cases e)
     (auto simp: logoutDueToInactivity_def resetTimer_def page_ops Let_def split: if_splits)

text \<open>
  C8. The inactivity prompt is never shown when no session token is present (an absent
  token, like an empty one, is not truthy). When the script loads on a page whose store
  has no token, nothing is set up: no listener, no countdown. When the countdown
  elapses and the store has no token, \<open>logoutDueToInactivity\<close> does nothing. Any step
  that shows a prompt is taken with a token in the store and a countdown pending. And a
  page loaded as a guest's is never prompted, whatever happens afterwards: activity,
  and writes to the store by other handlers, a token among them.
\<close>

theorem no_inactivity_prompt_without_token:
  "(\<not> truthy_item (getItem auth_token pg) \<longrightarrow> script_load pg = pg)
   \<and> (\<not> truthy_item (getItem auth_token pg) \<longrightarrow> logoutDueToInactivity stay pg = pg)
   \<and> (confirms_shown (step pg e) \<noteq> confirms_shown pg
        \<longrightarrow> truthy_item (getItem auth_token pg) \<and> inactivity_timer pg)
   \<and> (\<not> truthy_item (getItem auth_token pg) \<and> \<not> activity_listeners pg \<and> \<not> inactivity_timer pg
        \<longrightarrow> confirms_shown (run (script_load pg) events) = confirms_shown pg)"
proof (intro conjI impI)
  assume "\<not> truthy_item (getItem auth_token pg)"
  then show "script_load pg = pg" by (simp add: script_load_def)
next
  assume "\<not> truthy_item (getItem auth_token pg)"
  then show "logoutDueToInactivity stay pg = pg" by (simp add: logoutDueToInactivity_def)
next
  assume "confirms_shown (step pg e) \<noteq> confirms_shown pg"
  from step_prompt [OF this] show "truthy_item (getItem auth_token pg)" by simp
next
  assume "confirms_shown (step pg e) \<noteq> confirms_shown pg"
  from step_prompt [OF this] show "inactivity_timer pg" by simp
next
  assume "\<not> truthy_item (getItem auth_token pg) \<and> \<not> activity_listeners pg \<and> \<not> inactivity_timer pg"
  then have "script_load pg = pg" "\<not> activity_listeners pg" "\<not> inactivity_timer pg"
    by (simp_all add: script_load_def)
  with run_unarmed [of pg events]
  show "confirms_shown (run (script_load pg) events) = confirms_shown pg" by simp
qed

theorem no_inactivity_prompt_without_token_witness:
  "script_load (fresh_page True Map.empty) = fresh_page True Map.empty
   \<and> logoutDueToInactivity False (fresh_page True Map.empty) = fresh_page True Map.empty
   \<and> confirms_shown (run (script_load (fresh_page True Map.empty)) guest_events) = []
   \<and> confirms_shown (step (script_load (fresh_page True session_store)) (TimerElapsed True))
       = [inactivity_prompt]
   \<and> truthy_item (getItem auth_token (script_load (fresh_page True session_store)))
   \<and> inactivity_timer (script_load (fresh_page True session_store))"
proof -
  let ?guest = "fresh_page True Map.empty"
  let ?user = "script_load (fresh_page True session_store)"
  have guest: "\<not> truthy_item (getItem auth_token ?guest)"
    "\<not> activity_listeners ?guest" "\<not> inactivity_timer ?guest"
    by (simp_all add: fresh_page_def getItem_def)
  have empty: "confirms_shown ?guest = []"
    by (simp add: fresh_page_def)
  have prompted: "confirms_shown (step ?user (TimerElapsed True)) = [inactivity_prompt]"
    by (simp add: script_load_def setupAutoLogout_def resetTimer_def logoutDueToInactivity_def
        page_ops fresh_page_def session_store_def Let_def lit_def)
  have before: "confirms_shown ?user = []"
    by (simp add: script_load_def setupAutoLogout_def resetTimer_def fresh_page_def)
  note g = no_inactivity_prompt_without_token [of ?guest False Activity guest_events]
  note u = no_inactivity_prompt_without_token [of ?user True "TimerElapsed True" "[]"]
  from g guest have 1: "script_load ?guest = ?guest" by blast
  from g guest have 2: "logoutDueToInactivity False ?guest = ?guest" by blast
  from g guest
  have "confirms_shown (run (script_load ?guest) guest_events) = confirms_shown ?guest"
    by blast
  with empty have 3: "confirms_shown (run (script_load ?guest) guest_events) = []" by simp
  from prompted before
  have "confirms_shown (step ?user (TimerElapsed True)) \<noteq> confirms_shown ?user"
    by (simp only: list.distinct not_False_eq_True)
  with u have 4: "truthy_item (getItem auth_token ?user)" "inactivity_timer ?user" by blast+
  from 1 2 3 prompted 4 show ?thesis by blast
qed

end
